theory Spec2Isabelle
  imports Complex_Main "HOL-Library.Char_ord" "HOL-Library.List_Lexorder"
begin

section \<open>The V1 quality gate of hwp-bridge (scripts/v1\_gate.py)\<close>

text \<open>
  The gate runs an external parser over a private corpus, records one \<open>RunResult\<close> per
  file, aggregates the records and compares the aggregate with configured thresholds.
  The model keeps the script's function names. What the script obtains from outside
  (the file system, the outcome of every subprocess, the SHA-256 function of hashlib, the
  JSON parser) is an explicit input of the model.

  Numbers: Python's \<open>int\<close> is \<open>int\<close>; counts are \<open>nat\<close>. A Python \<open>float\<close> is
  modelled by the exact rational it stands for (\<open>rat\<close>): \<open>ok / total\<close> is the exact
  quotient and \<open>round\<close> rounds half to even, as Python does on an exactly represented
  value. Thresholds are finite numbers; NaN, infinities and the binary rounding error of
  a quotient are outside the model.
\<close>

subsection \<open>Bytes and text\<close>

type_synonym bytes = "char list"

text \<open>
  \<open>classify_error\<close> decodes the bytes as UTF-8 with replacement, lower-cases the text and
  looks for ASCII needles. Every ASCII byte decodes to itself, every other byte becomes
  part of a non-ASCII character, and lower-casing a non-ASCII character never yields a
  character that completes one of the needles; so the search is modelled on the bytes,
  with the ASCII capitals lower-cased.
\<close>

definition lower_char :: "char \<Rightarrow> char" where
  "lower_char c =
     (case map_of (zip ''ABCDEFGHIJKLMNOPQRSTUVWXYZ'' ''abcdefghijklmnopqrstuvwxyz'') c of
        None \<Rightarrow> c
      | Some l \<Rightarrow> l)"

definition decode_lower :: "bytes \<Rightarrow> string" where
  "decode_lower b = map lower_char b"

text \<open>Python's \<open>needle in text\<close> on strings.\<close>

fun starts_with :: "string \<Rightarrow> string \<Rightarrow> bool" where
  "starts_with [] t = True"
| "starts_with (x # xs) [] = False"
| "starts_with (x # xs) (y # ys) = (x = y \<and> starts_with xs ys)"

fun contains :: "string \<Rightarrow> string \<Rightarrow> bool" where
  "contains n [] = (n = [])"
| "contains n (c # cs) = (starts_with n (c # cs) \<or> contains n cs)"

subsection \<open>Running one command\<close>

text \<open>
  What \<open>subprocess.run\<close> does with one command: the child exits with a return code and
  its two captured streams, or the timeout expires and the exception carries what was
  captured so far (each stream possibly \<open>None\<close>).
\<close>

datatype proc_outcome =
    Completed int bytes bytes
  | TimeoutExpired "bytes option" "bytes option"

text \<open>\<open>e.stdout or b""\<close>: \<open>None\<close> and the empty bytes both give the empty bytes.\<close>

definition or_empty :: "bytes option \<Rightarrow> bytes" where
  "or_empty b = (case b of None \<Rightarrow> [] | Some x \<Rightarrow> x)"

text \<open>
  \<open>run_cmd\<close> returns \<open>(code, stdout, stderr, elapsed_ms)\<close>. Its argument is the outcome
  of the child and the elapsed milliseconds measured around it.
\<close>

fun run_cmd :: "proc_outcome \<times> int \<Rightarrow> int \<times> bytes \<times> bytes \<times> int" where
  "run_cmd (Completed returncode out err, ms) = (returncode, out, err, ms)"
| "run_cmd (TimeoutExpired out err, ms) = (124, or_empty out, or_empty err, ms)"

subsection \<open>Classifying a failure\<close>

definition classify_error :: "bytes \<Rightarrow> bytes \<Rightarrow> int \<Rightarrow> string" where
  "classify_error stderr stdout code =
     (let text = decode_lower (stderr @ [CHR 0x0A] @ stdout) in
      if contains ''encrypted'' text \<or> contains ''encryption'' text then ''encrypted''
      else if contains ''distribution'' text then ''distribution''
      else if contains ''size limit'' text \<or> contains ''sizelimit'' text
              \<or> contains ''limit exceeded'' text then ''size_limit''
      else if code = 124 then ''timeout''
      else ''parse_error'')"

text \<open>The text the classifier searches, and the three text rules, named for the theorems.\<close>

definition classified_text :: "bytes \<Rightarrow> bytes \<Rightarrow> string" where
  "classified_text stderr stdout = decode_lower (stderr @ [CHR 0x0A] @ stdout)"

definition mentions_encryption :: "string \<Rightarrow> bool" where
  "mentions_encryption t = (contains ''encrypted'' t \<or> contains ''encryption'' t)"

definition mentions_distribution :: "string \<Rightarrow> bool" where
  "mentions_distribution t = contains ''distribution'' t"

definition mentions_size_limit :: "string \<Rightarrow> bool" where
  "mentions_size_limit t =
     (contains ''size limit'' t \<or> contains ''sizelimit'' t \<or> contains ''limit exceeded'' t)"

subsection \<open>Python's \<open>round\<close>, \<open>or\<close> and \<open>dict.get\<close>\<close>

text \<open>\<open>round(x)\<close>: the nearest integer, a tie going to the even one.\<close>

definition round_py :: "rat \<Rightarrow> int" where
  "round_py x =
     (let f = \<lfloor>x\<rfloor>; d = x - of_int f in
      if d < 1 / 2 then f
      else if d > 1 / 2 then f + 1
      else if even f then f else f + 1)"

text \<open>\<open>round(x, n)\<close>: the nearest multiple of \<open>10 ** -n\<close>, ties to even.\<close>

definition round_py_nd :: "rat \<Rightarrow> nat \<Rightarrow> rat" where
  "round_py_nd x n = of_int (round_py (x * 10 ^ n)) / 10 ^ n"

text \<open>\<open>x or y\<close> on integers: \<open>x\<close> when it is non-zero, else \<open>y\<close>.\<close>

definition py_or :: "int \<Rightarrow> int \<Rightarrow> int" where
  "py_or x y = (if x \<noteq> 0 then x else y)"

text \<open>
  The category map is a \<open>dict\<close> from relative path to \<open>"A"\<close>, \<open>"B"\<close>, \<open>"C"\<close> or
  \<open>None\<close>; its keys are read in insertion order, so it is an association list.
  \<open>category_map.get(rel)\<close> is \<open>None\<close> for a missing key.
\<close>

type_synonym category_map_t = "(string \<times> string option) list"

definition dict_get :: "category_map_t \<Rightarrow> string \<Rightarrow> string option" where
  "dict_get m rel = (case map_of m rel of None \<Rightarrow> None | Some c \<Rightarrow> c)"

subsection \<open>The data model\<close>

record RunResult =
  relpath :: string
  category :: "string option"
  size_bytes :: int
  ok :: bool
  error :: "string option"
  timing_ms :: int
  out_sha256_a :: "string option"
  out_sha256_b :: "string option"
  deterministic :: "bool option"
  md_sha256_a :: "string option"
  md_sha256_b :: "string option"
  md_deterministic :: "bool option"
  sections :: "int option"
  paragraphs :: "int option"
  tables :: "int option"

text \<open>The command line, as \<open>argparse\<close> returns it.\<close>

record args =
  timeout_s :: int
  check_markdown :: bool
  min_corpus_size :: int
  min_success_a :: rat
  min_success_b :: rat
  min_success_c :: rat
  min_deterministic_rate :: rat
  max_files :: int
  ci :: bool

text \<open>
  What one iteration of the loop over the files observes: the size of the file and the
  outcome and elapsed milliseconds of each of the five commands (\<open>info\<close>, \<open>json\<close>
  twice, \<open>markdown\<close> twice; the last two are run only with \<open>--check-markdown\<close>).
\<close>

record file_runs =
  st_size :: int
  info_run :: "proc_outcome \<times> int"
  json_run_a :: "proc_outcome \<times> int"
  json_run_b :: "proc_outcome \<times> int"
  markdown_run_a :: "proc_outcome \<times> int"
  markdown_run_b :: "proc_outcome \<times> int"

text \<open>
  Everything else the script reads from outside. \<open>'p\<close> is \<open>pathlib.Path\<close> with its
  order; \<open>join rel\<close> is \<open>corpus_dir / rel\<close>; \<open>rglob_hwp\<close> is what
  \<open>corpus_dir.rglob("*.hwp")\<close> yields; \<open>relative_to p\<close> is
  \<open>p.relative_to(corpus_dir).as_posix()\<close>; \<open>category_map\<close> is what
  \<open>load_category_map\<close> returned; \<open>runs i\<close> is what iteration \<open>i\<close> of the loop
  observes; \<open>doc_stats\<close> is the section, paragraph and table count the script reads off
  the parsed JSON, \<open>None\<close> when that raises.
\<close>

record 'p env =
  corpus_dir_exists :: bool
  category_map :: category_map_t
  join :: "string \<Rightarrow> 'p"
  path_exists :: "'p \<Rightarrow> bool"
  is_file :: "'p \<Rightarrow> bool"
  rglob_hwp :: "'p list"
  relative_to :: "'p \<Rightarrow> string"
  hwp_bin_exists :: bool
  runs :: "nat \<Rightarrow> file_runs"
  sha256_bytes :: "bytes \<Rightarrow> string"
  doc_stats :: "bytes \<Rightarrow> (int \<times> int \<times> int) option"

subsection \<open>Percentiles\<close>

record percentile_stats =
  p50 :: int
  p95 :: int
  p99 :: int

definition pick :: "int list \<Rightarrow> rat \<Rightarrow> int" where
  "pick v p =
     (let idx = max 0 (min (int (length v) - 1) (round_py (p * of_int (int (length v) - 1))))
      in v ! nat idx)"

definition percentiles :: "int list \<Rightarrow> percentile_stats" where
  "percentiles values =
     (if values = [] then \<lparr>p50 = 0, p95 = 0, p99 = 0\<rparr>
      else let v = sort values in
        \<lparr>p50 = pick v (1 / 2), p95 = pick v (19 / 20), p99 = pick v (99 / 100)\<rparr>)"

subsection \<open>Resolving the corpus files\<close>

text \<open>The two loops of \<open>find_corpus_files\<close>, each appending to \<open>files\<close>.\<close>

fun manifest_loop :: "'p env \<Rightarrow> string list \<Rightarrow> ('p \<times> string) list \<Rightarrow> ('p \<times> string) list" where
  "manifest_loop e [] files = files"
| "manifest_loop e (rel # rels) files =
     (let p = join e rel in
      if path_exists e p \<and> is_file e p then manifest_loop e rels (files @ [(p, rel)])
      else manifest_loop e rels files)"

fun scan_loop :: "'p env \<Rightarrow> 'p list \<Rightarrow> ('p \<times> string) list \<Rightarrow> ('p \<times> string) list" where
  "scan_loop e [] files = files"
| "scan_loop e (p # ps) files =
     (if is_file e p then scan_loop e ps (files @ [(p, relative_to e p)])
      else scan_loop e ps files)"

definition find_corpus_files ::
  "('p::linorder) env \<Rightarrow> category_map_t \<Rightarrow> ('p \<times> string) list" where
  "find_corpus_files e cm =
     (let files = (if cm \<noteq> [] then manifest_loop e (map fst cm) [] else []) in
      if cm \<noteq> [] \<and> files \<noteq> [] then files
      else scan_loop e (sort (rglob_hwp e)) files)"

text \<open>Lines 196 to 199 of \<open>main\<close>: resolution, then the cap \<open>--max-files\<close>.\<close>

definition gate_files :: "args \<Rightarrow> ('p::linorder) env \<Rightarrow> ('p \<times> string) list" where
  "gate_files a e =
     (let files = find_corpus_files e (category_map e) in
      if max_files a \<noteq> 0 \<and> max_files a > 0 then take (nat (max_files a)) files else files)"

subsection \<open>One file\<close>

text \<open>The body of the loop over the files (lines 218 to 295), returning the record.\<close>

definition process_file ::
  "args \<Rightarrow> (bytes \<Rightarrow> string) \<Rightarrow> (bytes \<Rightarrow> (int \<times> int \<times> int) option) \<Rightarrow>
   string \<Rightarrow> string option \<Rightarrow> file_runs \<Rightarrow> RunResult" where
  "process_file a sha stats_of rel cat fr =
     (let size = st_size fr;
          (code_i, out_i, err_i, ms_i) = run_cmd (info_run fr);
          (code_a, out_a, err_a, ms_a) = run_cmd (json_run_a fr);
          (code_b, out_b, err_b, ms_b) = run_cmd (json_run_b fr);
          (md_code_a, md_out_a, md_err_a, ms_m1) =
            (if check_markdown a then run_cmd (markdown_run_a fr) else (0, [], [], 0));
          (md_code_b, md_out_b, md_err_b, ms_m2) =
            (if check_markdown a then run_cmd (markdown_run_b fr) else (0, [], [], 0));
          (md_sha_a, md_sha_b, md_det) =
            (if check_markdown a \<and> md_code_a = 0 \<and> md_code_b = 0
             then (Some (sha md_out_a), Some (sha md_out_b), Some (sha md_out_a = sha md_out_b))
             else (None, None, None));
          ok' = (code_i = 0 \<and> code_a = 0 \<and> code_b = 0
                 \<and> (\<not> check_markdown a \<or> (md_code_a = 0 \<and> md_code_b = 0)));
          (err, sha_a, sha_b, det, stats) =
            (if ok'
             then (None, Some (sha out_a), Some (sha out_b), Some (sha out_a = sha out_b),
                   stats_of out_a)
             else (Some (classify_error
                           (err_i @ err_a @ err_b @ md_err_a @ md_err_b)
                           (out_i @ out_a @ out_b @ md_out_a @ md_out_b)
                           (py_or code_a (py_or code_i (py_or md_code_a md_code_b)))),
                   None, None, None, None));
          timing = ms_i + ms_a + ms_b + ms_m1 + ms_m2
      in \<lparr>relpath = rel, category = cat, size_bytes = size, ok = ok', error = err,
          timing_ms = timing, out_sha256_a = sha_a, out_sha256_b = sha_b,
          deterministic = det, md_sha256_a = md_sha_a, md_sha256_b = md_sha_b,
          md_deterministic = md_det,
          sections = map_option fst stats,
          paragraphs = map_option (fst \<circ> snd) stats,
          tables = map_option (snd \<circ> snd) stats\<rparr>)"

text \<open>The loop itself: iteration \<open>i\<close> handles the \<open>i\<close>-th resolved file.\<close>

definition run_results :: "args \<Rightarrow> 'p env \<Rightarrow> ('p \<times> string) list \<Rightarrow> RunResult list" where
  "run_results a e files =
     map (\<lambda>(i, (p, rel)).
            process_file a (sha256_bytes e) (doc_stats e) rel (dict_get (category_map e) rel)
              (runs e i))
         (enumerate 0 files)"

subsection \<open>Aggregation\<close>

definition rate :: "nat \<Rightarrow> nat \<Rightarrow> rat" where
  "rate n total_n = (if total_n \<noteq> 0 then of_nat n / of_nat total_n else 0)"

definition ok_count :: "RunResult list \<Rightarrow> nat" where
  "ok_count results = length (filter ok results)"

text \<open>\<open>r.ok and r.deterministic\<close>: the optional boolean is truthy only when it is \<open>True\<close>.\<close>

definition det_count :: "RunResult list \<Rightarrow> nat" where
  "det_count results = length (filter (\<lambda>r. ok r \<and> deterministic r = Some True) results)"

definition det_rate :: "RunResult list \<Rightarrow> rat" where
  "det_rate results = rate (det_count results) (ok_count results)"

definition timings :: "RunResult list \<Rightarrow> int list" where
  "timings results = map timing_ms (filter ok results)"

text \<open>\<open>r.error or "unknown"\<close>: \<open>None\<close> and the empty string both give \<open>"unknown"\<close>.\<close>

definition error_or_unknown :: "RunResult \<Rightarrow> string" where
  "error_or_unknown r =
     (case error r of None \<Rightarrow> ''unknown'' | Some k \<Rightarrow> if k = [] then ''unknown'' else k)"

fun failures_by_type :: "RunResult list \<Rightarrow> (string \<rightharpoonup> nat) \<Rightarrow> (string \<rightharpoonup> nat)" where
  "failures_by_type [] m = m"
| "failures_by_type (r # rs) m =
     (if ok r then failures_by_type rs m
      else failures_by_type rs
             (m(error_or_unknown r \<mapsto>
                  (case m (error_or_unknown r) of None \<Rightarrow> 0 | Some n \<Rightarrow> n) + 1)))"

text \<open>
  The bucket of a record: its category when that is A, B or C, else \<open>"_"\<close>. The two
  dictionaries \<open>cat_totals\<close> and \<open>cat_ok\<close> have exactly these four keys; they are
  functions here, 0 at every key the loop never touches.
\<close>

definition bucket :: "RunResult \<Rightarrow> string" where
  "bucket r =
     (if category r \<in> {Some ''A'', Some ''B'', Some ''C''} then the (category r) else ''_'')"

fun cat_loop ::
  "RunResult list \<Rightarrow> (string \<Rightarrow> nat) \<times> (string \<Rightarrow> nat) \<Rightarrow> (string \<Rightarrow> nat) \<times> (string \<Rightarrow> nat)" where
  "cat_loop [] (totals, oks) = (totals, oks)"
| "cat_loop (r # rs) (totals, oks) =
     (let k = bucket r;
          totals' = totals(k := totals k + 1);
          oks' = (if ok r then oks(k := oks k + 1) else oks)
      in cat_loop rs (totals', oks'))"

definition cat_totals :: "RunResult list \<Rightarrow> string \<Rightarrow> nat" where
  "cat_totals results = fst (cat_loop results (\<lambda>k. 0, \<lambda>k. 0))"

definition cat_ok :: "RunResult list \<Rightarrow> string \<Rightarrow> nat" where
  "cat_ok results = snd (cat_loop results (\<lambda>k. 0, \<lambda>k. 0))"

definition cat_rates :: "RunResult list \<Rightarrow> string \<Rightarrow> rat" where
  "cat_rates results k = round_py_nd (rate (cat_ok results k) (cat_totals results k)) 4"

text \<open>The fields of the summary document the theorems speak about.\<close>

record summary =
  total_files :: nat
  ok_files :: nat
  failed_files :: nat
  totals_by_category :: "string \<Rightarrow> nat"
  ok_by_category :: "string \<Rightarrow> nat"
  success_rate :: "string \<Rightarrow> rat"
  deterministic_rate :: rat
  timing_stats :: percentile_stats
  failures :: "string \<rightharpoonup> nat"

definition make_summary :: "RunResult list \<Rightarrow> summary" where
  "make_summary results =
     \<lparr>total_files = length results,
      ok_files = ok_count results,
      failed_files = length results - ok_count results,
      totals_by_category = cat_totals results,
      ok_by_category = cat_ok results,
      success_rate = cat_rates results,
      deterministic_rate = round_py_nd (det_rate results) 4,
      timing_stats = percentiles (timings results),
      failures = failures_by_type results Map.empty\<rparr>"

subsection \<open>The gate\<close>



section \<open>Notions the properties are stated with\<close>

subsection \<open>Reading one invocation\<close>

definition exit_code :: "proc_outcome \<times> int \<Rightarrow> int" where
  "exit_code r = fst (run_cmd r)"

definition captured_stdout :: "proc_outcome \<times> int \<Rightarrow> bytes" where
  "captured_stdout r = fst (snd (run_cmd r))"

definition captured_stderr :: "proc_outcome \<times> int \<Rightarrow> bytes" where
  "captured_stderr r = fst (snd (snd (run_cmd r)))"

fun timed_out :: "proc_outcome \<times> int \<Rightarrow> bool" where
  "timed_out (TimeoutExpired out err, ms) = True"
| "timed_out (Completed c out err, ms) = False"

text \<open>The invocations the configuration asks for, in the order the loop makes them.\<close>

definition configured_runs :: "args \<Rightarrow> file_runs \<Rightarrow> (proc_outcome \<times> int) list" where
  "configured_runs a fr =
     [info_run fr, json_run_a fr, json_run_b fr]
     @ (if check_markdown a then [markdown_run_a fr, markdown_run_b fr] else [])"

text \<open>
  The status line 274 hands to the classifier,
  \<open>code_a or code_i or md_code_a or md_code_b\<close>: the first non-zero one of the first
  \<open>json\<close> run, the \<open>info\<close> run and the two \<open>markdown\<close> runs (which count as 0 when they
  are not configured). The second \<open>json\<close> run is not among them.
\<close>

definition dominant_code :: "args \<Rightarrow> file_runs \<Rightarrow> int" where
  "dominant_code a fr =
     py_or (exit_code (json_run_a fr))
       (py_or (exit_code (info_run fr))
          (if check_markdown a
           then py_or (exit_code (markdown_run_a fr)) (exit_code (markdown_run_b fr))
           else 0))"

text \<open>The text the classifier searches for a failed file: all captured streams.\<close>

definition failure_text :: "args \<Rightarrow> file_runs \<Rightarrow> string" where
  "failure_text a fr =
     classified_text (concat (map captured_stderr (configured_runs a fr)))
       (concat (map captured_stdout (configured_runs a fr)))"

text \<open>The kind the three text rules give, by priority; \<open>None\<close> when none matches.\<close>

definition text_kind :: "string \<Rightarrow> string option" where
  "text_kind t =
     (if mentions_encryption t then Some ''encrypted''
      else if mentions_distribution t then Some ''distribution''
      else if mentions_size_limit t then Some ''size_limit''
      else None)"

subsection \<open>Ranks, categories and the specification of the file list\<close>




text \<open>
  The file list in the specification's words: the entries of the mapping, in its order,
  that exist as regular files under the corpus root; and the full scan, sorted by path,
  of the regular files among what the recursive search yields.
\<close>

definition spec_manifest_entries :: "'p env \<Rightarrow> category_map_t \<Rightarrow> ('p \<times> string) list" where
  "spec_manifest_entries e cm =
     map (\<lambda>rel. (join e rel, rel))
       (filter (\<lambda>rel. path_exists e (join e rel) \<and> is_file e (join e rel)) (map fst cm))"

definition spec_full_scan :: "('p::linorder) env \<Rightarrow> ('p \<times> string) list" where
  "spec_full_scan e =
     map (\<lambda>p. (p, relative_to e p)) (filter (is_file e) (sort (rglob_hwp e)))"

subsection \<open>Example inputs\<close>

text \<open>
  The defaults of the command line, and a corpus under \<open>corpus/local/\<close> given by its
  manifest, the paths that exist, what the recursive search yields and what each
  iteration observes. In the examples the hash is the identity on the output, which
  separates different outputs as SHA-256 does, and no structural counts are read.
\<close>

definition default_args :: args where
  "default_args =
     \<lparr>timeout_s = 30, check_markdown = False, min_corpus_size = 100,
      min_success_a = 95 / 100, min_success_b = 85 / 100, min_success_c = 80 / 100,
      min_deterministic_rate = 99 / 100, max_files = 0, ci = False\<rparr>"

definition example_env ::
  "category_map_t \<Rightarrow> string list \<Rightarrow> string list \<Rightarrow> (nat \<Rightarrow> file_runs) \<Rightarrow> string env" where
  "example_env cm present found rs =
     \<lparr>corpus_dir_exists = True, category_map = cm,
      join = (\<lambda>rel. ''corpus/local/'' @ rel),
      path_exists = (\<lambda>p. p \<in> set present),
      is_file = (\<lambda>p. p \<in> set present),
      rglob_hwp = found, relative_to = drop 13,
      hwp_bin_exists = True, runs = rs, sha256_bytes = (\<lambda>b. b),
      doc_stats = (\<lambda>b. None)\<rparr>"

definition exits_ok :: "proc_outcome \<times> int" where
  "exits_ok = (Completed 0 ''{sections: []}'' [], 7)"

definition exits_ok_other :: "proc_outcome \<times> int" where
  "exits_ok_other = (Completed 0 ''{sections: [], t: 1}'' [], 7)"

definition exits_bad :: "proc_outcome \<times> int" where
  "exits_bad = (Completed 1 [] ''error: invalid header'', 7)"

definition expires :: "proc_outcome \<times> int" where
  "expires = (TimeoutExpired None None, 30000)"

definition runs_of ::
  "proc_outcome \<times> int \<Rightarrow> proc_outcome \<times> int \<Rightarrow> proc_outcome \<times> int \<Rightarrow>
   proc_outcome \<times> int \<Rightarrow> file_runs" where
  "runs_of i ja jb m =
     \<lparr>st_size = 4096, info_run = i, json_run_a = ja, json_run_b = jb,
      markdown_run_a = m, markdown_run_b = m\<rparr>"

definition all_ok :: file_runs where
  "all_ok = runs_of exits_ok exits_ok exits_ok exits_ok"

definition all_bad :: file_runs where
  "all_bad = runs_of exits_bad exits_bad exits_bad exits_ok"

text \<open>One file of category A, every iteration observing \<open>fr\<close>.\<close>

definition one_file :: "file_runs \<Rightarrow> string env" where
  "one_file fr =
     example_env [(''a.hwp'', Some ''A'')] [''corpus/local/a.hwp''] [''corpus/local/a.hwp'']
       (\<lambda>i. fr)"

text \<open>Three files of category A; the third one fails.\<close>

definition three_in_a :: "string env" where
  "three_in_a =
     example_env [(''a.hwp'', Some ''A''), (''b.hwp'', Some ''A''), (''c.hwp'', Some ''A'')]
       [''corpus/local/a.hwp'', ''corpus/local/b.hwp'', ''corpus/local/c.hwp'']
       [''corpus/local/a.hwp'', ''corpus/local/b.hwp'', ''corpus/local/c.hwp'']
       (\<lambda>i. if i = 2 then all_bad else all_ok)"


text \<open>Three files without a manifest; all succeed, the first one with two different outputs.\<close>

definition three_unlabeled :: "string env" where
  "three_unlabeled =
     example_env []
       [''corpus/local/x.hwp'', ''corpus/local/y.hwp'', ''corpus/local/z.hwp'']
       [''corpus/local/z.hwp'', ''corpus/local/x.hwp'', ''corpus/local/y.hwp'']
       (\<lambda>i. if i = 0 then runs_of exits_ok exits_ok exits_ok_other exits_ok else all_ok)"

text \<open>A manifest of three entries of which the second is not on disk; a fourth file is.\<close>

definition partial_manifest :: "string env" where
  "partial_manifest =
     example_env [(''b.hwp'', Some ''B''), (''gone.hwp'', None), (''a.hwp'', Some ''A'')]
       [''corpus/local/a.hwp'', ''corpus/local/b.hwp'', ''corpus/local/z.hwp'']
       [''corpus/local/z.hwp'', ''corpus/local/a.hwp'', ''corpus/local/b.hwp'']
       (\<lambda>i. all_ok)"

section \<open>Properties\<close>

subsection \<open>One invocation, one file\<close>

lemma starts_with_iff: "starts_with n t \<longleftrightarrow> (\<exists>s. t = n @ s)"
  by (induction n t rule: starts_with.induct) auto

text \<open>\<open>contains\<close> is the substring test.\<close>

lemma contains_iff: "contains n t \<longleftrightarrow> (\<exists>p s. t = p @ n @ s)"
proof (induction t)
  case Nil
  then show ?case by auto
next
  case (Cons c cs)
  show ?case
  proof
    assume "contains n (c # cs)"
    then consider "starts_with n (c # cs)" | "contains n cs" by auto
    then show "\<exists>p s. c # cs = p @ n @ s"
    proof cases
      case 1
      then obtain s where "c # cs = n @ s" by (auto simp: starts_with_iff)
      then have "c # cs = [] @ n @ s" by simp
      then show ?thesis by blast
    next
      case 2
      then obtain p s where "cs = p @ n @ s" using Cons.IH by auto
      then have "c # cs = (c # p) @ n @ s" by simp
      then show ?thesis by blast
    qed
  next
    assume "\<exists>p s. c # cs = p @ n @ s"
    then obtain p s where ps: "c # cs = p @ n @ s" by auto
    show "contains n (c # cs)"
    proof (cases p)
      case Nil
      then have "starts_with n (c # cs)" using ps by (auto simp: starts_with_iff)
      then show ?thesis by simp
    next
      case (Cons x p')
      then have "cs = p' @ n @ s" using ps by simp
      then have "contains n cs" using Cons.IH by blast
      then show ?thesis by simp
    qed
  qed
qed

lemma timed_out_exit_code: "timed_out r \<Longrightarrow> exit_code r = 124"
  by (cases r rule: timed_out.cases) (simp_all add: exit_code_def)

lemma classify_error_text_kind:
  "classify_error stderr stdout code =
     (case text_kind (classified_text stderr stdout) of
        Some k \<Rightarrow> k
      | None \<Rightarrow> if code = 124 then ''timeout'' else ''parse_error'')"
  by (simp add: classify_error_def classified_text_def text_kind_def mentions_encryption_def
      mentions_distribution_def mentions_size_limit_def Let_def)

lemma classify_error_kinds:
  "classify_error stderr stdout code
     \<in> {''encrypted'', ''distribution'', ''size_limit'', ''timeout'', ''parse_error''}"
  by (simp add: classify_error_def Let_def)

lemma process_file_ok:
  "ok (process_file a sha st rel cat fr) \<longleftrightarrow>
     exit_code (info_run fr) = 0 \<and> exit_code (json_run_a fr) = 0
     \<and> exit_code (json_run_b fr) = 0
     \<and> (\<not> check_markdown a
        \<or> (exit_code (markdown_run_a fr) = 0 \<and> exit_code (markdown_run_b fr) = 0))"
  by (simp add: process_file_def exit_code_def Let_def split: prod.splits)

lemma process_file_ok_set:
  "ok (process_file a sha st rel cat fr) \<longleftrightarrow>
     (\<forall>r \<in> set (configured_runs a fr). exit_code r = 0)"
  by (cases "check_markdown a") (simp_all add: process_file_ok configured_runs_def)

lemma process_file_error:
  "error (process_file a sha st rel cat fr) =
     (if ok (process_file a sha st rel cat fr) then None
      else Some (classify_error (concat (map captured_stderr (configured_runs a fr)))
                   (concat (map captured_stdout (configured_runs a fr)))
                   (dominant_code a fr)))"
  by (simp add: process_file_def exit_code_def captured_stderr_def captured_stdout_def
      configured_runs_def dominant_code_def Let_def py_or_def split: prod.splits)

lemma process_file_json_hashes:
  "out_sha256_a (process_file a sha st rel cat fr) =
     (if ok (process_file a sha st rel cat fr)
      then Some (sha (captured_stdout (json_run_a fr))) else None)"
  "out_sha256_b (process_file a sha st rel cat fr) =
     (if ok (process_file a sha st rel cat fr)
      then Some (sha (captured_stdout (json_run_b fr))) else None)"
  "deterministic (process_file a sha st rel cat fr) =
     (if ok (process_file a sha st rel cat fr)
      then Some (sha (captured_stdout (json_run_a fr)) = sha (captured_stdout (json_run_b fr)))
      else None)"
  by (simp_all add: process_file_def exit_code_def captured_stdout_def Let_def
      split: prod.splits)

lemma process_file_md_hashes:
  "md_sha256_a (process_file a sha st rel cat fr) =
     (if check_markdown a \<and> exit_code (markdown_run_a fr) = 0
         \<and> exit_code (markdown_run_b fr) = 0
      then Some (sha (captured_stdout (markdown_run_a fr))) else None)"
  "md_sha256_b (process_file a sha st rel cat fr) =
     (if check_markdown a \<and> exit_code (markdown_run_a fr) = 0
         \<and> exit_code (markdown_run_b fr) = 0
      then Some (sha (captured_stdout (markdown_run_b fr))) else None)"
  "md_deterministic (process_file a sha st rel cat fr) =
     (if check_markdown a \<and> exit_code (markdown_run_a fr) = 0
         \<and> exit_code (markdown_run_b fr) = 0
      then Some (sha (captured_stdout (markdown_run_a fr))
                 = sha (captured_stdout (markdown_run_b fr)))
      else None)"
  by (simp_all add: process_file_def exit_code_def captured_stdout_def Let_def
      split: prod.splits)

lemma process_file_error_or_unknown:
  "\<not> ok (process_file a sha st rel cat fr) \<Longrightarrow>
   error_or_unknown (process_file a sha st rel cat fr) \<noteq> ''unknown''"
  using classify_error_kinds[of "concat (map captured_stderr (configured_runs a fr))"
      "concat (map captured_stdout (configured_runs a fr))" "dominant_code a fr"]
  by (auto simp add: error_or_unknown_def process_file_error)

subsection \<open>The loop over the files\<close>


lemma run_results_nth:
  "i < length files \<Longrightarrow>
   run_results a e files ! i =
     process_file a (sha256_bytes e) (doc_stats e) (snd (files ! i))
       (dict_get (category_map e) (snd (files ! i))) (runs e i)"
  by (simp add: run_results_def nth_enumerate_eq split: prod.splits)

lemma run_results_member:
  "r \<in> set (run_results a e files) \<Longrightarrow>
   \<exists>rel cat fr. r = process_file a (sha256_bytes e) (doc_stats e) rel cat fr"
  by (auto simp add: run_results_def)

lemma failures_by_type_unknown:
  "\<forall>r \<in> set rs. \<not> ok r \<longrightarrow> error_or_unknown r \<noteq> ''unknown'' \<Longrightarrow>
   m ''unknown'' = None \<Longrightarrow> failures_by_type rs m ''unknown'' = None"
  by (induction rs arbitrary: m) auto

subsection \<open>Rounding and ranks\<close>


lemma round_py_close: "\<bar>of_int (round_py x) - x\<bar> \<le> 1 / 2"
proof -
  define d where "d = x - of_int \<lfloor>x\<rfloor>"
  have d: "0 \<le> d" "d < 1" unfolding d_def by linarith+
  have x: "x = of_int \<lfloor>x\<rfloor> + d" unfolding d_def by simp
  have r: "round_py x =
      (if d < 1 / 2 then \<lfloor>x\<rfloor> else if d > 1 / 2 then \<lfloor>x\<rfloor> + 1
       else if even \<lfloor>x\<rfloor> then \<lfloor>x\<rfloor> else \<lfloor>x\<rfloor> + 1)"
    by (simp add: round_py_def Let_def d_def)
  consider "round_py x = \<lfloor>x\<rfloor>" "d \<le> 1 / 2" | "round_py x = \<lfloor>x\<rfloor> + 1" "d \<ge> 1 / 2"
    using r by (auto split: if_splits)
  then show ?thesis
  proof cases
    case 1
    have "of_int (round_py x) - x = - d" using 1(1) x by simp
    then show ?thesis using d 1(2) by simp
  next
    case 2
    have "of_int (round_py x) - x = 1 - d" using 2(1) x by simp
    then show ?thesis using d 2(2) by simp
  qed
qed

text \<open>No integer is nearer to \<open>x\<close> than \<open>round_py x\<close>.\<close>

lemma round_py_nearest: "\<bar>of_int (round_py x) - x\<bar> \<le> \<bar>of_int j - x\<bar>"
proof (cases "j = round_py x")
  case True
  then show ?thesis by simp
next
  case False
  then have "\<bar>j - round_py x\<bar> \<ge> 1" by linarith
  then have "\<bar>(of_int j :: rat) - of_int (round_py x)\<bar> \<ge> 1"
    by (metis (mono_tags) of_int_1 of_int_abs of_int_diff of_int_le_iff)
  with round_py_close[of x] show ?thesis by linarith
qed



subsection \<open>The file list and the category counters\<close>

lemma manifest_loop_eq:
  "manifest_loop e rels files =
     files @ map (\<lambda>rel. (join e rel, rel))
       (filter (\<lambda>rel. path_exists e (join e rel) \<and> is_file e (join e rel)) rels)"
  by (induction rels arbitrary: files) (simp_all add: Let_def)

lemma scan_loop_eq:
  "scan_loop e ps files = files @ map (\<lambda>p. (p, relative_to e p)) (filter (is_file e) ps)"
  by (induction ps arbitrary: files) simp_all

lemma find_corpus_files_eq:
  "find_corpus_files e cm =
     (if spec_manifest_entries e cm \<noteq> [] then spec_manifest_entries e cm
      else spec_full_scan e)"
proof (cases "cm = []")
  case True
  then show ?thesis
    by (simp add: find_corpus_files_def spec_manifest_entries_def spec_full_scan_def
        scan_loop_eq)
next
  case False
  then show ?thesis
    by (simp add: find_corpus_files_def spec_manifest_entries_def spec_full_scan_def
        scan_loop_eq manifest_loop_eq Let_def)
qed

lemma sorted_full_scan: "sorted (map fst (spec_full_scan e))"
proof -
  have "map fst (spec_full_scan e) = filter (is_file e) (sort (rglob_hwp e))"
    by (simp add: spec_full_scan_def comp_def)
  then show ?thesis by (simp add: sorted_wrt_filter)
qed







section \<open>The claims\<close>

subsection \<open>C2: the success flag\<close>

text \<open>
  Claim C2. For every processed file, the record's \<open>ok\<close> flag is true exactly when every
  configured invocation exited with status 0: the \<open>info\<close> invocation, both \<open>json\<close>
  invocations and, when the markdown check is enabled, both \<open>markdown\<close> invocations.
\<close>

theorem ok_iff_every_invocation_exits_zero:
  "i < length files \<Longrightarrow>
   ok (run_results a e files ! i) \<longleftrightarrow>
     (exit_code (info_run (runs e i)) = 0
      \<and> exit_code (json_run_a (runs e i)) = 0
      \<and> exit_code (json_run_b (runs e i)) = 0
      \<and> (check_markdown a \<longrightarrow>
            exit_code (markdown_run_a (runs e i)) = 0
            \<and> exit_code (markdown_run_b (runs e i)) = 0))"
  by (auto simp add: run_results_nth process_file_ok)

text \<open>With the markdown check enabled, a file whose second markdown run fails is not ok.\<close>

theorem ok_iff_every_invocation_exits_zero_witness:
  "\<not> ok (run_results (default_args\<lparr>check_markdown := True\<rparr>)
            (one_file (runs_of exits_ok exits_ok exits_ok exits_bad))
            (gate_files (default_args\<lparr>check_markdown := True\<rparr>)
               (one_file (runs_of exits_ok exits_ok exits_ok exits_bad))) ! 0)
   \<and> ok (run_results default_args (one_file all_ok)
           (gate_files default_args (one_file all_ok)) ! 0)"
proof -
  let ?a = "default_args\<lparr>check_markdown := True\<rparr>"
  let ?e = "one_file (runs_of exits_ok exits_ok exits_ok exits_bad)"
  let ?e' = "one_file all_ok"
  have l: "0 < length (gate_files ?a ?e)" by code_simp
  have c: "check_markdown ?a" "exit_code (markdown_run_b (runs ?e 0)) \<noteq> 0"
    by code_simp+
  have l': "0 < length (gate_files default_args ?e')" by code_simp
  have c': "exit_code (info_run (runs ?e' 0)) = 0" "exit_code (json_run_a (runs ?e' 0)) = 0"
    "exit_code (json_run_b (runs ?e' 0)) = 0" "\<not> check_markdown default_args"
    by code_simp+
  show ?thesis
    using ok_iff_every_invocation_exits_zero[OF l, where a = ?a and e = ?e] c
      ok_iff_every_invocation_exits_zero[OF l', where a = default_args and e = ?e'] c'
    by simp
qed

subsection \<open>C3: the classifier\<close>

text \<open>
  Claim C3. For every captured stderr, stdout and exit status the classifier returns
  exactly one of the five error kinds, by fixed priority, the first matching rule
  winning: \<open>encrypted\<close> if the lower-cased text mentions encryption, else
  \<open>distribution\<close> if it mentions distribution, else \<open>size_limit\<close> if it mentions a size
  limit, else \<open>timeout\<close> if and only if the exit status is 124, else \<open>parse_error\<close>.
  Text that matches one of the first three rules classifies by text even when the exit
  status is 124.
\<close>

theorem classify_error_priority:
  "classify_error stderr stdout code =
     (if mentions_encryption (classified_text stderr stdout) then ''encrypted''
      else if mentions_distribution (classified_text stderr stdout) then ''distribution''
      else if mentions_size_limit (classified_text stderr stdout) then ''size_limit''
      else if code = 124 then ''timeout''
      else ''parse_error'')
   \<and> classify_error stderr stdout code
        \<in> {''encrypted'', ''distribution'', ''size_limit'', ''timeout'', ''parse_error''}
   \<and> (text_kind (classified_text stderr stdout) \<noteq> None \<longrightarrow>
        classify_error stderr stdout 124 \<noteq> ''timeout''
        \<and> classify_error stderr stdout 124 = classify_error stderr stdout code)
   \<and> (text_kind (classified_text stderr stdout) = None \<longrightarrow>
        (classify_error stderr stdout code = ''timeout'' \<longleftrightarrow> code = 124))"
  by (simp add: classify_error_text_kind text_kind_def)

text \<open>
  A timed-out run whose partial output says the document is encrypted and mentions a
  size limit is \<open>encrypted\<close>; the same status with unrelated text is \<open>timeout\<close>.
\<close>

theorem classify_error_priority_witness:
  "classify_error ''Error: document is ENCRYPTED'' ''size limit exceeded'' 124 = ''encrypted''
   \<and> classify_error ''killed'' [] 124 = ''timeout''"
proof -
  have 1: "mentions_encryption
             (classified_text ''Error: document is ENCRYPTED'' ''size limit exceeded'')"
    by code_simp
  have 2: "\<not> mentions_encryption (classified_text ''killed'' [])"
    "\<not> mentions_distribution (classified_text ''killed'' [])"
    "\<not> mentions_size_limit (classified_text ''killed'' [])"
    by code_simp+
  show ?thesis
    using classify_error_priority[of "''Error: document is ENCRYPTED''"
        "''size limit exceeded''" 124]
      classify_error_priority[of "''killed''" "[]" 124] 1 2
    by simp
qed

subsection \<open>C4: files that timed out\<close>

text \<open>
  The claim as stated (every file with a timed-out invocation is recorded as \<open>timeout\<close>
  unless its output matches a text rule) fails: here the \<open>info\<close> invocation exceeds the
  timeout, the first \<open>json\<close> invocation exits with status 1, no captured text matches a
  text rule, and the record's kind is \<open>parse_error\<close>.
\<close>

theorem timed_out_file_recorded_parse_error:
  "timed_out (info_run (runs_of expires exits_bad exits_bad exits_ok))
   \<and> text_kind (failure_text default_args (runs_of expires exits_bad exits_bad exits_ok)) = None
   \<and> error (run_results default_args (one_file (runs_of expires exits_bad exits_bad exits_ok))
              (gate_files default_args
                 (one_file (runs_of expires exits_bad exits_bad exits_ok))) ! 0)
       = Some ''parse_error''"
  by code_simp

text \<open>
  Claim C4, amended. Every file for which some configured invocation exceeded the timeout
  has \<open>ok\<close> false. When the status handed to the classifier, the first non-zero one of the
  first \<open>json\<close> run, the \<open>info\<close> run and the two \<open>markdown\<close> runs, is the sentinel 124,
  the record has \<open>ok\<close> false and its kind is \<open>timeout\<close>, unless the captured output of its
  invocations matches a text rule, in which case that kind is recorded.
\<close>

theorem timeout_kind_by_dominant_status:
  "i < length files \<Longrightarrow>
   ((\<exists>r \<in> set (configured_runs a (runs e i)). timed_out r) \<longrightarrow>
      \<not> ok (run_results a e files ! i))
   \<and> (dominant_code a (runs e i) = 124 \<longrightarrow>
        \<not> ok (run_results a e files ! i)
        \<and> error (run_results a e files ! i) =
            Some (case text_kind (failure_text a (runs e i)) of
                    None \<Rightarrow> ''timeout'' | Some k \<Rightarrow> k))"
proof -
  assume i: "i < length files"
  let ?r = "run_results a e files ! i"
  let ?fr = "runs e i"
  have r: "?r = process_file a (sha256_bytes e) (doc_stats e) (snd (files ! i))
       (dict_get (category_map e) (snd (files ! i))) ?fr"
    using i by (rule run_results_nth)
  have 1: "\<not> ok ?r" if "\<exists>x \<in> set (configured_runs a ?fr). timed_out x"
  proof -
    from that obtain x where x: "x \<in> set (configured_runs a ?fr)" "timed_out x" by blast
    then have "exit_code x \<noteq> 0" by (simp add: timed_out_exit_code)
    with x(1) show ?thesis unfolding r process_file_ok_set by blast
  qed
  have 2: "\<not> ok ?r" if "dominant_code a ?fr = 124"
    using that unfolding r process_file_ok dominant_code_def py_or_def
    by (auto split: if_splits)
  have 3: "error ?r =
      Some (case text_kind (failure_text a ?fr) of None \<Rightarrow> ''timeout'' | Some k \<Rightarrow> k)"
    if "dominant_code a ?fr = 124"
    using 2[OF that] that unfolding r
    by (simp add: process_file_error classify_error_text_kind failure_text_def
        split: option.splits)
  show ?thesis using 1 2 3 by blast
qed

text \<open>The first \<open>json\<close> invocation times out and nothing was captured: \<open>timeout\<close>.\<close>

theorem timeout_kind_by_dominant_status_witness:
  "\<not> ok (run_results default_args (one_file (runs_of exits_ok expires exits_ok exits_ok))
            (gate_files default_args
               (one_file (runs_of exits_ok expires exits_ok exits_ok))) ! 0)
   \<and> error (run_results default_args (one_file (runs_of exits_ok expires exits_ok exits_ok))
              (gate_files default_args
                 (one_file (runs_of exits_ok expires exits_ok exits_ok))) ! 0)
       = Some ''timeout''"
proof -
  let ?e = "one_file (runs_of exits_ok expires exits_ok exits_ok)"
  have l: "0 < length (gate_files default_args ?e)" by code_simp
  have d: "dominant_code default_args (runs ?e 0) = 124" by code_simp
  have t: "text_kind (failure_text default_args (runs ?e 0)) = None" by code_simp
  from timeout_kind_by_dominant_status[OF l, of default_args] d t show ?thesis by simp
qed

subsection \<open>C6: hashes and determinism verdicts\<close>

text \<open>
  The claim as stated (every hash field and every determinism boolean of a failed file is
  null) fails: with the markdown check enabled, both \<open>json\<close> invocations fail and both
  \<open>markdown\<close> invocations succeed; the record is not ok, yet it carries the markdown
  hashes and the markdown verdict.
\<close>

theorem failed_run_keeps_markdown_hashes:
  "\<not> ok (run_results (default_args\<lparr>check_markdown := True\<rparr>)
            (one_file (runs_of exits_ok exits_bad exits_bad exits_ok))
            (gate_files (default_args\<lparr>check_markdown := True\<rparr>)
               (one_file (runs_of exits_ok exits_bad exits_bad exits_ok))) ! 0)
   \<and> md_sha256_a (run_results (default_args\<lparr>check_markdown := True\<rparr>)
            (one_file (runs_of exits_ok exits_bad exits_bad exits_ok))
            (gate_files (default_args\<lparr>check_markdown := True\<rparr>)
               (one_file (runs_of exits_ok exits_bad exits_bad exits_ok))) ! 0) \<noteq> None
   \<and> md_sha256_b (run_results (default_args\<lparr>check_markdown := True\<rparr>)
            (one_file (runs_of exits_ok exits_bad exits_bad exits_ok))
            (gate_files (default_args\<lparr>check_markdown := True\<rparr>)
               (one_file (runs_of exits_ok exits_bad exits_bad exits_ok))) ! 0) \<noteq> None
   \<and> md_deterministic (run_results (default_args\<lparr>check_markdown := True\<rparr>)
            (one_file (runs_of exits_ok exits_bad exits_bad exits_ok))
            (gate_files (default_args\<lparr>check_markdown := True\<rparr>)
               (one_file (runs_of exits_ok exits_bad exits_bad exits_ok))) ! 0) = Some True"
  by code_simp

text \<open>
  Claim C6, amended. For every processed file, the hashes of the two \<open>json\<close> outputs and
  their equality are computed only when the file's overall run succeeded, and for a file
  whose overall run failed \<open>out_sha256_a\<close>, \<open>out_sha256_b\<close> and \<open>deterministic\<close> are
  null. The markdown hashes and \<open>md_deterministic\<close> are computed exactly when the
  markdown check is enabled and both \<open>markdown\<close> invocations exited with status 0,
  whether or not the overall run succeeded, and are null otherwise.
\<close>

theorem hashes_null_by_outcome:
  "i < length files \<Longrightarrow>
   (ok (run_results a e files ! i) \<longrightarrow>
      out_sha256_a (run_results a e files ! i)
        = Some (sha256_bytes e (captured_stdout (json_run_a (runs e i))))
      \<and> out_sha256_b (run_results a e files ! i)
        = Some (sha256_bytes e (captured_stdout (json_run_b (runs e i))))
      \<and> deterministic (run_results a e files ! i)
        = Some (sha256_bytes e (captured_stdout (json_run_a (runs e i)))
                = sha256_bytes e (captured_stdout (json_run_b (runs e i)))))
   \<and> (\<not> ok (run_results a e files ! i) \<longrightarrow>
      out_sha256_a (run_results a e files ! i) = None
      \<and> out_sha256_b (run_results a e files ! i) = None
      \<and> deterministic (run_results a e files ! i) = None)
   \<and> (check_markdown a \<and> exit_code (markdown_run_a (runs e i)) = 0
        \<and> exit_code (markdown_run_b (runs e i)) = 0 \<longrightarrow>
      md_sha256_a (run_results a e files ! i)
        = Some (sha256_bytes e (captured_stdout (markdown_run_a (runs e i))))
      \<and> md_sha256_b (run_results a e files ! i)
        = Some (sha256_bytes e (captured_stdout (markdown_run_b (runs e i))))
      \<and> md_deterministic (run_results a e files ! i)
        = Some (sha256_bytes e (captured_stdout (markdown_run_a (runs e i)))
                = sha256_bytes e (captured_stdout (markdown_run_b (runs e i)))))
   \<and> (\<not> (check_markdown a \<and> exit_code (markdown_run_a (runs e i)) = 0
           \<and> exit_code (markdown_run_b (runs e i)) = 0) \<longrightarrow>
      md_sha256_a (run_results a e files ! i) = None
      \<and> md_sha256_b (run_results a e files ! i) = None
      \<and> md_deterministic (run_results a e files ! i) = None)"
  by (simp add: run_results_nth process_file_json_hashes process_file_md_hashes)

text \<open>
  A failed file without the markdown check: all six fields are null. A file that
  succeeds with two different \<open>json\<close> outputs: hashed, and not deterministic.
\<close>

theorem hashes_null_by_outcome_witness:
  "out_sha256_a (run_results default_args (one_file all_bad)
       (gate_files default_args (one_file all_bad)) ! 0) = None
   \<and> deterministic (run_results default_args (one_file all_bad)
       (gate_files default_args (one_file all_bad)) ! 0) = None
   \<and> md_sha256_a (run_results default_args (one_file all_bad)
       (gate_files default_args (one_file all_bad)) ! 0) = None
   \<and> md_deterministic (run_results default_args (one_file all_bad)
       (gate_files default_args (one_file all_bad)) ! 0) = None
   \<and> deterministic (run_results default_args
         (one_file (runs_of exits_ok exits_ok exits_ok_other exits_ok))
         (gate_files default_args
            (one_file (runs_of exits_ok exits_ok exits_ok_other exits_ok))) ! 0)
       = Some False"
proof -
  let ?e = "one_file all_bad"
  let ?e' = "one_file (runs_of exits_ok exits_ok exits_ok_other exits_ok)"
  have l: "0 < length (gate_files default_args ?e)" by code_simp
  have n: "\<not> ok (run_results default_args ?e (gate_files default_args ?e) ! 0)"
    "\<not> check_markdown default_args"
    by code_simp+
  have l': "0 < length (gate_files default_args ?e')" by code_simp
  have n': "ok (run_results default_args ?e' (gate_files default_args ?e') ! 0)"
    "sha256_bytes ?e' (captured_stdout (json_run_a (runs ?e' 0)))
       \<noteq> sha256_bytes ?e' (captured_stdout (json_run_b (runs ?e' 0)))"
    by code_simp+
  show ?thesis
    using hashes_null_by_outcome[OF l, where a = default_args and e = ?e] n
      hashes_null_by_outcome[OF l', where a = default_args and e = ?e'] n'
    by simp
qed

subsection \<open>C8: the error kind\<close>

text \<open>
  Claim C8. For every processed file the record's error kind is null when its \<open>ok\<close> flag
  is true and non-null when it is false; so no failed record lacks a classification, and
  the key \<open>unknown\<close> of the failure histogram is never populated.
\<close>

theorem error_kind_null_iff_ok:
  "(\<forall>i < length files.
      (ok (run_results a e files ! i) \<longrightarrow> error (run_results a e files ! i) = None)
      \<and> (\<not> ok (run_results a e files ! i) \<longrightarrow> error (run_results a e files ! i) \<noteq> None))
   \<and> failures (make_summary (run_results a e files)) ''unknown'' = None"
proof -
  have "\<forall>r \<in> set (run_results a e files). \<not> ok r \<longrightarrow> error_or_unknown r \<noteq> ''unknown''"
    using run_results_member process_file_error_or_unknown by blast
  then have "failures_by_type (run_results a e files) Map.empty ''unknown'' = None"
    by (rule failures_by_type_unknown) simp
  then show ?thesis
    by (simp add: make_summary_def run_results_nth process_file_error)
qed

text \<open>Three files of which the third fails: its record alone has a kind.\<close>

theorem error_kind_null_iff_ok_witness:
  "error (run_results default_args three_in_a (gate_files default_args three_in_a) ! 0) = None
   \<and> error (run_results default_args three_in_a (gate_files default_args three_in_a) ! 2)
       \<noteq> None
   \<and> failures (make_summary
        (run_results default_args three_in_a (gate_files default_args three_in_a)))
       ''unknown'' = None"
proof -
  let ?fs = "gate_files default_args three_in_a"
  have l: "0 < length ?fs" "2 < length ?fs" by code_simp+
  have o: "ok (run_results default_args three_in_a ?fs ! 0)"
    "\<not> ok (run_results default_args three_in_a ?fs ! 2)"
    by code_simp+
  show ?thesis
    using error_kind_null_iff_ok[of ?fs default_args three_in_a] l o by blast
qed

subsection \<open>C5: the determinism rate\<close>




subsection \<open>C7: timing percentiles\<close>



subsection \<open>C9: the resolved file list\<close>

text \<open>
  Claim C9. When the category mapping is non-empty and at least one of its entries exists
  as a regular file under the corpus root, the resolved list is exactly those entries,
  in the mapping's order. When the mapping is empty or none of its entries exists, the
  resolved list is the full recursive scan: the regular files among what the search
  yields, sorted by path. The cap on the file count, when positive, truncates the list
  after this resolution.
\<close>

theorem resolved_files_manifest_then_scan:
  "(cm \<noteq> [] \<and> spec_manifest_entries e cm \<noteq> [] \<longrightarrow>
      find_corpus_files e cm = spec_manifest_entries e cm)
   \<and> (cm = [] \<or> spec_manifest_entries e cm = [] \<longrightarrow>
      find_corpus_files e cm = spec_full_scan e)
   \<and> sorted (map fst (spec_full_scan e))
   \<and> set (map fst (spec_full_scan e)) = set (filter (is_file e) (rglob_hwp e))
   \<and> gate_files a e =
       (if 0 < max_files a
        then take (nat (max_files a)) (find_corpus_files e (category_map e))
        else find_corpus_files e (category_map e))"
proof -
  have m: "set (map fst (spec_full_scan e)) = set (filter (is_file e) (rglob_hwp e))"
    by (auto simp add: spec_full_scan_def)
  have e0: "cm = [] \<Longrightarrow> spec_manifest_entries e cm = []"
    by (simp add: spec_manifest_entries_def)
  show ?thesis
    using m e0 sorted_full_scan[of e]
    by (auto simp add: find_corpus_files_eq gate_files_def Let_def)
qed

text \<open>
  A manifest whose second entry is missing gives the other two in manifest order (not
  sorted), and one file under a cap of 1; without a manifest the scan is sorted.
\<close>

theorem resolved_files_manifest_then_scan_witness:
  "find_corpus_files partial_manifest (category_map partial_manifest)
     = [(''corpus/local/b.hwp'', ''b.hwp''), (''corpus/local/a.hwp'', ''a.hwp'')]
   \<and> gate_files (default_args\<lparr>max_files := 1\<rparr>) partial_manifest
     = [(''corpus/local/b.hwp'', ''b.hwp'')]
   \<and> find_corpus_files three_unlabeled (category_map three_unlabeled)
     = [(''corpus/local/x.hwp'', ''x.hwp''), (''corpus/local/y.hwp'', ''y.hwp''),
        (''corpus/local/z.hwp'', ''z.hwp'')]"
proof -
  let ?a = "default_args\<lparr>max_files := 1\<rparr>"
  have 1: "category_map partial_manifest \<noteq> []"
    "spec_manifest_entries partial_manifest (category_map partial_manifest)
       = [(''corpus/local/b.hwp'', ''b.hwp''), (''corpus/local/a.hwp'', ''a.hwp'')]"
    "max_files ?a = 1"
    by code_simp+
  have 2: "category_map three_unlabeled = []"
    "spec_full_scan three_unlabeled
       = [(''corpus/local/x.hwp'', ''x.hwp''), (''corpus/local/y.hwp'', ''y.hwp''),
          (''corpus/local/z.hwp'', ''z.hwp'')]"
    by code_simp+
  show ?thesis
    using resolved_files_manifest_then_scan[of "category_map partial_manifest"
        partial_manifest ?a]
      resolved_files_manifest_then_scan[of "category_map three_unlabeled"
        three_unlabeled default_args] 1 2
    by simp
qed

subsection \<open>C1 and C10: the verdict\<close>





end
